theory Spec2Isabelle
  imports Main "HOL-Library.AList" "HOL-Library.Word"
begin

section \<open>Key listing (src/core/list.ts)\<close>

subsection \<open>The shapes the key service answers with\<close>

text \<open>
  A value thrown by the SDK client. The code only ever reads its \<open>message\<close>.
\<close>

datatype js_error = Error (message: string)

text \<open>
  The entries of the SDK responses. Every field of the SDK's types is optional
  (\<open>string | undefined\<close>), so every field is an option here.
\<close>

record key_list_entry =
  KeyId :: "string option"
  KeyArn :: "string option"

record alias_list_entry =
  AliasName :: "string option"
  TargetKeyId :: "string option"

record tag_entry =
  TagKey :: "string option"
  TagValue :: "string option"

record key_metadata =
  Description :: "string option"
  KeySpec :: "string option"
  KeyUsage :: "string option"
  KeyState :: "string option"
  CreationDate :: "int option"
  Enabled :: "bool option"

text \<open>
  The client \<open>createKMSClient(region)\<close> returns (core/kms-client, a collaborator of this
  file). \<open>kmsClient.send(command)\<close> either throws or gives the response; one field per
  command class that list.ts sends. The value of each field is what the response object
  holds under \<open>Keys\<close>, \<open>Aliases\<close>, \<open>Tags\<close> and \<open>KeyMetadata\<close>. During one call of
  \<open>listKMSKeys\<close> the service answers a request by its input alone.
\<close>

record kms_client =
  send_ListKeys :: "js_error + key_list_entry list option"
  send_ListAliases :: "js_error + alias_list_entry list option"
  send_ListResourceTags :: "string \<Rightarrow> js_error + tag_entry list option"
  send_DescribeKey :: "string \<Rightarrow> js_error + key_metadata option"

text \<open>
  \<open>Record<string, string>\<close>: a plain object used as a dictionary, kept as an association
  list in the order its keys were first assigned.
\<close>

type_synonym tag_record = "(string \<times> string) list"

record key_info =
  keyId :: string
  keyArn :: string
  alias' :: "string option"
  description :: "string option"
  keySpec :: "string option"
  keyUsage :: "string option"
  keyState :: "string option"
  creationDate :: "int option"
  enabled :: "bool option"
  tags :: "tag_record option"

text \<open>The \<open>tagFilter\<close> argument, \<open>{ key: string; value: string }\<close>.\<close>

record tag_filter =
  filter_key :: string
  filter_value :: string

subsection \<open>JavaScript's truthiness and object properties\<close>

text \<open>An optional string is truthy when it is defined and not the empty string.\<close>

definition truthy :: "string option \<Rightarrow> bool" where
  "truthy v = (case v of None \<Rightarrow> False | Some s \<Rightarrow> s \<noteq> [])"

text \<open>\<open>v || ''\<close> for an optional string \<open>v\<close>.\<close>

definition or_empty :: "string option \<Rightarrow> string" where
  "or_empty v = (case v of None \<Rightarrow> [] | Some s \<Rightarrow> s)"

text \<open>
  \<open>tags[k] = v\<close> on an object literal: an own property is created or overwritten, except
  for the key \<open>__proto__\<close>, whose inherited setter ignores a string.
\<close>

definition prop_assign :: "tag_record \<Rightarrow> string \<Rightarrow> string \<Rightarrow> tag_record" where
  "prop_assign obj k v = (if k = ''__proto__'' then obj else AList.update k v obj)"

text \<open>
  \<open>tags[k] === v\<close> for a string \<open>v\<close>: true exactly when \<open>k\<close> is an own property holding
  \<open>v\<close> (no property inherited from \<open>Object.prototype\<close> is a string).
\<close>

definition prop_is :: "tag_record \<Rightarrow> string \<Rightarrow> string \<Rightarrow> bool" where
  "prop_is obj k v = (map_of obj k = Some v)"

subsection \<open>fetchTags and matchesTagFilter\<close>

definition collect_tag :: "tag_entry \<Rightarrow> tag_record \<Rightarrow> tag_record" where
  "collect_tag tag acc =
     (case TagKey tag of
        None \<Rightarrow> acc
      | Some k \<Rightarrow>
          (if k = [] then acc
           else (case TagValue tag of None \<Rightarrow> acc | Some v \<Rightarrow> prop_assign acc k v)))"

definition fetchTags :: "kms_client \<Rightarrow> string \<Rightarrow> tag_record option" where
  "fetchTags kmsClient kid =
     (case send_ListResourceTags kmsClient kid of
        Inl tagError \<Rightarrow> None
      | Inr None \<Rightarrow> None
      | Inr (Some ts) \<Rightarrow>
          (if length ts > 0 then Some (fold collect_tag ts []) else None))"

definition matchesTagFilter :: "tag_filter option \<Rightarrow> tag_record option \<Rightarrow> bool" where
  "matchesTagFilter tagFilter tgs =
     (case tagFilter of
        None \<Rightarrow> True
      | Some f \<Rightarrow>
          (case tgs of
             None \<Rightarrow> False
           | Some t \<Rightarrow> prop_is t (filter_key f) (filter_value f)))"

subsection \<open>listKMSKeys\<close>

text \<open>The alias map: a later alias of the same key overwrites an earlier one.\<close>

definition set_alias :: "alias_list_entry \<Rightarrow> (string \<times> string) list \<Rightarrow> (string \<times> string) list" where
  "set_alias a m =
     (if truthy (TargetKeyId a) \<and> truthy (AliasName a)
      then AList.update (or_empty (TargetKeyId a)) (or_empty (AliasName a)) m
      else m)"

definition build_aliasMap :: "alias_list_entry list option \<Rightarrow> (string \<times> string) list" where
  "build_aliasMap aliases = (case aliases of None \<Rightarrow> [] | Some as \<Rightarrow> fold set_alias as [])"

text \<open>
  The tag pass that runs when a filter is given: the tags of every listed key with a
  truthy id are fetched and stored in \<open>tagsCache\<close>; \<open>results\<close>, what \<open>Promise.all\<close> gives,
  keeps the order of the listing. The requests are in flight together; as the service
  answers by the request alone, the order in which they complete does not show.
\<close>

definition tag_results :: "kms_client \<Rightarrow> key_list_entry list \<Rightarrow> (key_list_entry \<times> tag_record option) list" where
  "tag_results kmsClient allKeys =
     map (\<lambda>key. (key, fetchTags kmsClient (or_empty (KeyId key))))
       (filter (\<lambda>key. truthy (KeyId key)) allKeys)"

definition cache_set :: "key_list_entry \<times> tag_record option \<Rightarrow> (string \<times> tag_record option) list
    \<Rightarrow> (string \<times> tag_record option) list" where
  "cache_set r cache = AList.update (or_empty (KeyId (fst r))) (snd r) cache"

definition build_tagsCache :: "kms_client \<Rightarrow> tag_filter option \<Rightarrow> key_list_entry list
    \<Rightarrow> (string \<times> tag_record option) list" where
  "build_tagsCache kmsClient tagFilter allKeys =
     (case tagFilter of
        None \<Rightarrow> []
      | Some f \<Rightarrow> fold cache_set (tag_results kmsClient allKeys) [])"

definition keysToProcess :: "kms_client \<Rightarrow> tag_filter option \<Rightarrow> key_list_entry list \<Rightarrow> key_list_entry list" where
  "keysToProcess kmsClient tagFilter allKeys =
     (case tagFilter of
        None \<Rightarrow> allKeys
      | Some f \<Rightarrow>
          map fst (filter (\<lambda>r. matchesTagFilter tagFilter (snd r)) (tag_results kmsClient allKeys)))"

text \<open>The object literal \<open>keyInfo\<close> starts from, with the cached tags when the cache has the key.\<close>

definition init_keyInfo :: "(string \<times> string) list \<Rightarrow> (string \<times> tag_record option) list
    \<Rightarrow> key_list_entry \<Rightarrow> key_info" where
  "init_keyInfo aliasMap tagsCache key =
     \<lparr> keyId = or_empty (KeyId key),
       keyArn = or_empty (KeyArn key),
       alias' = map_of aliasMap (or_empty (KeyId key)),
       description = None, keySpec = None, keyUsage = None, keyState = None,
       creationDate = None, enabled = None,
       tags = (case map_of tagsCache (or_empty (KeyId key)) of None \<Rightarrow> None | Some t \<Rightarrow> t) \<rparr>"

definition set_metadata :: "key_metadata option \<Rightarrow> key_info \<Rightarrow> key_info" where
  "set_metadata md keyInfo =
     (case md of
        None \<Rightarrow> keyInfo
      | Some metadata \<Rightarrow>
          keyInfo\<lparr> description := Description metadata,
                   keySpec := KeySpec metadata,
                   keyUsage := KeyUsage metadata,
                   keyState := KeyState metadata,
                   creationDate := CreationDate metadata,
                   enabled := Enabled metadata \<rparr>)"

definition describe_warning :: "string \<Rightarrow> js_error \<Rightarrow> string" where
  "describe_warning kid err = ''Warning: Could not describe key '' @ kid @ '': '' @ message err"

text \<open>
  One round of the loop over \<open>keysToProcess\<close>, for a key with a truthy id: the
  \<open>keyInfo\<close> pushed and what \<open>console.warn\<close> printed.
\<close>

definition process_key :: "kms_client \<Rightarrow> bool \<Rightarrow> tag_filter option \<Rightarrow> (string \<times> string) list
    \<Rightarrow> (string \<times> tag_record option) list \<Rightarrow> key_list_entry \<Rightarrow> key_info \<times> string list" where
  "process_key kmsClient includeDetails tagFilter aliasMap tagsCache key =
     (let kid = or_empty (KeyId key);
          keyInfo = init_keyInfo aliasMap tagsCache key
      in if includeDetails then
           (case send_DescribeKey kmsClient kid of
              Inl err \<Rightarrow> (keyInfo, [describe_warning kid err])
            | Inr md \<Rightarrow>
                (let described = set_metadata md keyInfo
                 in (if tags described = None
                     then described\<lparr> tags := fetchTags kmsClient kid \<rparr>
                     else described, [])))
         else if tags keyInfo = None \<and> tagFilter = None then
           (keyInfo\<lparr> tags := fetchTags kmsClient kid \<rparr>, [])
         else (keyInfo, []))"

fun process_keys :: "kms_client \<Rightarrow> bool \<Rightarrow> tag_filter option \<Rightarrow> (string \<times> string) list
    \<Rightarrow> (string \<times> tag_record option) list \<Rightarrow> key_list_entry list \<Rightarrow> key_info list \<times> string list" where
  "process_keys kmsClient includeDetails tagFilter aliasMap tagsCache [] = ([], [])"
| "process_keys kmsClient includeDetails tagFilter aliasMap tagsCache (key # rest) =
     (if \<not> truthy (KeyId key)
      then process_keys kmsClient includeDetails tagFilter aliasMap tagsCache rest
      else
        (let (keyInfo, warned) = process_key kmsClient includeDetails tagFilter aliasMap tagsCache key;
             (keys, warnings) = process_keys kmsClient includeDetails tagFilter aliasMap tagsCache rest
         in (keyInfo # keys, warned @ warnings)))"

definition list_failure :: "js_error \<Rightarrow> js_error" where
  "list_failure err = Error (''Failed to list KMS keys: '' @ message err)"

text \<open>
  \<open>listKMSKeys\<close>, given the client. \<open>includeDetails\<close> is \<open>None\<close> when the caller leaves
  it out (the default is \<open>true\<close>). The result is the thrown error, or the keys returned
  together with the lines \<open>console.warn\<close> printed on the way.
\<close>

definition listKMSKeys :: "kms_client \<Rightarrow> bool option \<Rightarrow> tag_filter option
    \<Rightarrow> js_error + (key_info list \<times> string list)" where
  "listKMSKeys kmsClient includeDetails tagFilter =
     (case send_ListKeys kmsClient of
        Inl err \<Rightarrow> Inl (list_failure err)
      | Inr None \<Rightarrow> Inr ([], [])
      | Inr (Some allKeys) \<Rightarrow>
          (if length allKeys = 0 then Inr ([], [])
           else
             (case send_ListAliases kmsClient of
                Inl err \<Rightarrow> Inl (list_failure err)
              | Inr aliases \<Rightarrow>
                  Inr (process_keys kmsClient
                         (case includeDetails of None \<Rightarrow> True | Some b \<Rightarrow> b)
                         tagFilter
                         (build_aliasMap aliases)
                         (build_tagsCache kmsClient tagFilter allKeys)
                         (keysToProcess kmsClient tagFilter allKeys)))))"

subsection \<open>Notions the statements about listKMSKeys use\<close>

text \<open>The ids of the listed keys that the loops do not skip, in the order of the listing.\<close>

definition listed_ids :: "key_list_entry list \<Rightarrow> string list" where
  "listed_ids allKeys =
     map (\<lambda>key. or_empty (KeyId key)) (filter (\<lambda>key. truthy (KeyId key)) allKeys)"

text \<open>The detail fields of a \<open>KeyInfo\<close>, the ones only \<open>DescribeKey\<close> fills, are all undefined.\<close>

definition no_details :: "key_info \<Rightarrow> bool" where
  "no_details info \<longleftrightarrow>
     description info = None \<and> keySpec info = None \<and> keyUsage info = None \<and>
     keyState info = None \<and> creationDate info = None \<and> enabled info = None"

text \<open>An entry of a \<open>ListResourceTags\<close> answer has the key \<open>k\<close> and a value.\<close>

definition carries :: "string \<Rightarrow> tag_entry \<Rightarrow> bool" where
  "carries k tag \<longleftrightarrow> TagKey tag = Some k \<and> TagValue tag \<noteq> None"

text \<open>
  The value a \<open>ListResourceTags\<close> answer gives the key \<open>k\<close>, read off the answer itself: the
  value of the last entry that has the key \<open>k\<close> and a value. The empty key and the key
  \<open>__proto__\<close> are given no value.
\<close>

definition answered_value :: "tag_entry list \<Rightarrow> string \<Rightarrow> string option" where
  "answered_value ts k =
     (if k = [] \<or> k = ''__proto__'' then None
      else (case rev (filter (carries k) ts) of [] \<Rightarrow> None | tag # earlier \<Rightarrow> TagValue tag))"

subsection \<open>A key service with a key it will not describe and a key whose tags it will not list\<close>

text \<open>
  The service lists the keys \<open>k1\<close> and \<open>k2\<close>. It will not describe \<open>k1\<close>, whose tags give
  \<open>Purpose\<close> twice and \<open>Team\<close> no value, and it will not list the tags of \<open>k2\<close>.
\<close>

definition ex_tag_filter :: tag_filter where
  "ex_tag_filter = \<lparr> filter_key = ''Purpose'', filter_value = ''Eth'' \<rparr>"

definition ex_metadata :: key_metadata where
  "ex_metadata =
     \<lparr> Description = Some ''signing key'', KeySpec = Some ''ECC_SECG_P256K1'',
       KeyUsage = Some ''SIGN_VERIFY'', KeyState = Some ''Enabled'',
       CreationDate = Some 1700000000000, Enabled = Some True \<rparr>"

definition ex_client :: kms_client where
  "ex_client =
     \<lparr> send_ListKeys =
         Inr (Some [\<lparr> KeyId = Some ''k1'', KeyArn = Some ''arn:k1'' \<rparr>,
                    \<lparr> KeyId = Some ''k2'', KeyArn = None \<rparr>]),
       send_ListAliases =
         Inr (Some [\<lparr> AliasName = Some ''alias/eth'', TargetKeyId = Some ''k1'' \<rparr>]),
       send_ListResourceTags =
         (\<lambda>kid. if kid = ''k1''
                then Inr (Some [\<lparr> TagKey = Some ''Purpose'', TagValue = Some ''Test'' \<rparr>,
                                \<lparr> TagKey = Some ''Purpose'', TagValue = Some ''Eth'' \<rparr>,
                                \<lparr> TagKey = Some ''Team'', TagValue = None \<rparr>])
                else Inl (Error ''AccessDenied'')),
       send_DescribeKey =
         (\<lambda>kid. if kid = ''k1'' then Inl (Error ''AccessDenied'') else Inr (Some ex_metadata)) \<rparr>"

text \<open>What \<open>listKMSKeys\<close> makes of the two keys of \<open>ex_client\<close>.\<close>

definition ex_info_k1 :: "tag_record option \<Rightarrow> key_info" where
  "ex_info_k1 tgs =
     \<lparr> keyId = ''k1'', keyArn = ''arn:k1'', alias' = Some ''alias/eth'',
       description = None, keySpec = None, keyUsage = None, keyState = None,
       creationDate = None, enabled = None, tags = tgs \<rparr>"

definition ex_info_k2 :: key_info where
  "ex_info_k2 =
     \<lparr> keyId = ''k2'', keyArn = [], alias' = None,
       description = Some ''signing key'', keySpec = Some ''ECC_SECG_P256K1'',
       keyUsage = Some ''SIGN_VERIFY'', keyState = Some ''Enabled'',
       creationDate = Some 1700000000000, enabled = Some True, tags = None \<rparr>"

section \<open>The import command (src/cli/import.ts)\<close>

subsection \<open>The values JSON.parse gives\<close>

text \<open>
  A value parsed from JSON text. Numbers are left abstract (\<open>'n\<close>). The members of an
  object stand in the order of the text; of two members with one name the later one is
  the property.
\<close>

datatype 'n json =
    JNull
  | JBool bool
  | JNumber 'n
  | JString string
  | JArray "'n json list"
  | JObject "(string \<times> 'n json) list"

text \<open>
  \<open>t.name\<close> for a parsed object \<open>t\<close>: the own property, undefined (\<open>None\<close>) when there is
  none (nothing the code reads is inherited from \<open>Object.prototype\<close>).
\<close>

definition own_property :: "(string \<times> 'n json) list \<Rightarrow> string \<Rightarrow> 'n json option" where
  "own_property members name = map_of (rev members) name"

text \<open>
  Whether turning a parsed value into a string, as a template literal does, throws a
  TypeError. A parsed object with an own property \<open>toString\<close> has no callable
  \<open>toString\<close> left and \<open>valueOf\<close> gives no primitive, so the conversion throws; every
  other object is \<open>[object Object]\<close>. An array joins the strings of its elements, so it
  throws when one of them does.
\<close>

fun to_string_throws :: "'n json \<Rightarrow> bool" where
  "to_string_throws (JArray elements) = list_ex to_string_throws elements"
| "to_string_throws (JObject members) = (''toString'' \<in> fst ` set members)"
| "to_string_throws v = False"

text \<open>
  Whether the arrow function of line 58, \<open>t => `${t.TagKey}=${t.TagValue}`\<close>, throws on
  an element: reading a property of \<open>null\<close> throws; a property of a string, number,
  boolean or array is undefined, which prints as \<open>undefined\<close>; a property of an object is
  turned into a string.
\<close>

definition tag_text_throws :: "'n json \<Rightarrow> bool" where
  "tag_text_throws t =
     (case t of
        JNull \<Rightarrow> True
      | JObject members \<Rightarrow>
          (case own_property members ''TagKey'' of None \<Rightarrow> False | Some v \<Rightarrow> to_string_throws v) \<or>
          (case own_property members ''TagValue'' of None \<Rightarrow> False | Some v \<Rightarrow> to_string_throws v)
      | _ \<Rightarrow> False)"

subsection \<open>main\<close>

text \<open>
  The arguments of the one call \<open>main\<close> makes on \<open>importKMSKey\<close> (core/setup, a collaborator
  of this file), in the order of the call: the key, the alias, the region, the expiration
  date and the tags. The last two are optional. The tags are the elements of the array
  \<open>tags\<close> as they are: the objects built from the command line and whatever the JSON
  array of \<open>KMS_TAGS\<close> held.
\<close>

record 'n import_args =
  privateKeyHex :: string
  aliasName :: string
  region :: string
  expirationDate :: "int option"
  import_tags :: "'n json list option"

text \<open>What \<open>main\<close> reads of the value \<open>importKMSKey\<close> resolves to.\<close>

record import_result =
  result_keyId :: string
  result_keyArn :: string
  result_aliasName :: string

record process_env =
  AWS_REGION :: "string option"
  KMS_TAGS :: "string option"

text \<open>
  What a run of \<open>main\<close> does: the calls on \<open>importKMSKey\<close>, the calls on
  \<open>getEthereumAddress\<close> (key id and region), the status given to \<open>process.exit\<close>, if it is
  called, and whether the run ended in a TypeError thrown outside the \<open>try\<close> (the promise
  \<open>main()\<close> returns is then rejected). Console output is left out.
\<close>

record 'n main_run =
  import_calls :: "'n import_args list"
  address_calls :: "(string \<times> string) list"
  exit_code :: "nat option"
  rejected :: bool

text \<open>\<open>process.argv[i]\<close>: undefined past the end.\<close>

definition argv_at :: "string list \<Rightarrow> nat \<Rightarrow> string option" where
  "argv_at argv i = (if i < length argv then Some (argv ! i) else None)"

text \<open>\<open>v || d\<close> for an optional string \<open>v\<close>.\<close>

definition or_default :: "string option \<Rightarrow> string \<Rightarrow> string" where
  "or_default v d = (if truthy v then or_empty v else d)"

text \<open>
  Whether a string holds a character that \<open>.\<close> does not match in a regular expression:
  LF, CR, U+2028 or U+2029. A string of the command line is the list of its UTF-8 bytes,
  in which the last two are \<open>E2 80 A8\<close> and \<open>E2 80 A9\<close>.
\<close>

fun has_line_terminator :: "string \<Rightarrow> bool" where
  "has_line_terminator [] = False"
| "has_line_terminator (c # cs) =
     (c = CHR 0x0A \<or> c = CHR 0x0D \<or>
      (c = CHR 0xE2 \<and> (take 2 cs = [CHR 0x80, CHR 0xA8] \<or> take 2 cs = [CHR 0x80, CHR 0xA9])) \<or>
      has_line_terminator cs)"

text \<open>
  \<open>arg.match(/^([^=]+)=(.*)$/)\<close>: the key is what stands before the first \<open>=\<close> and is
  not empty, the value is the rest, which \<open>.\<close> matches only when it holds no line
  terminator.
\<close>

definition match_tag_arg :: "string \<Rightarrow> (string \<times> string) option" where
  "match_tag_arg arg =
     (let k = takeWhile (\<lambda>c. c \<noteq> CHR ''='') arg;
          rest = dropWhile (\<lambda>c. c \<noteq> CHR ''='') arg
      in if k = [] \<or> rest = [] \<or> has_line_terminator (tl rest)
         then None
         else Some (k, tl rest))"

text \<open>The objects \<open>{ TagKey: match[1], TagValue: match[2] }\<close> of the arguments from the fifth on.\<close>

definition argument_tags :: "string list \<Rightarrow> 'n json list" where
  "argument_tags argv =
     concat (map (\<lambda>arg. case match_tag_arg arg of
                           None \<Rightarrow> []
                         | Some (k, v) \<Rightarrow> [JObject [(''TagKey'', JString k), (''TagValue'', JString v)]])
                (drop 4 argv))"

text \<open>
  The tags of \<open>KMS_TAGS\<close>. \<open>parse_array s\<close> is \<open>JSON.parse(s)\<close> when that is an array,
  and \<open>None\<close> when it throws or gives something else. The elements are pushed as they
  are, whatever they are.
\<close>

definition environment_tags :: "(string \<Rightarrow> 'n json list option) \<Rightarrow> process_env \<Rightarrow> 'n json list" where
  "environment_tags parse_array env =
     (if truthy (KMS_TAGS env)
      then (case parse_array (or_empty (KMS_TAGS env)) of None \<Rightarrow> [] | Some envTags \<Rightarrow> envTags)
      else [])"

text \<open>
  \<open>main\<close>. Without a key it prints the usage and exits with 1. The line that prints the
  tags (line 58) stands before the \<open>try\<close>: when it throws, nothing is imported. Inside the
  \<open>try\<close> a failed import is reported and \<open>main\<close> exits with 1; after a successful one the
  address is asked for, and a failure there is only a warning.
\<close>

definition main :: "('n import_args \<Rightarrow> js_error + import_result) \<Rightarrow> (string \<Rightarrow> string \<Rightarrow> js_error + string)
    \<Rightarrow> (string \<Rightarrow> 'n json list option) \<Rightarrow> process_env \<Rightarrow> string list \<Rightarrow> 'n main_run" where
  "main importKMSKey getEthereumAddress parse_array env argv =
     (if \<not> truthy (argv_at argv 2)
      then \<lparr> import_calls = [], address_calls = [], exit_code = Some 1, rejected = False \<rparr>
      else
        (let tgs = environment_tags parse_array env @ argument_tags argv;
             call = \<lparr> privateKeyHex = or_empty (argv_at argv 2),
                      aliasName = or_default (argv_at argv 3) ''ethereum-signing-key-imported'',
                      region = or_default (AWS_REGION env) ''us-east-1'',
                      expirationDate = None,
                      import_tags = (if length tgs > 0 then Some tgs else None) \<rparr>
         in if list_ex tag_text_throws tgs
            then \<lparr> import_calls = [], address_calls = [], exit_code = None, rejected = True \<rparr>
            else
              (case importKMSKey call of
                 Inl err \<Rightarrow>
                   \<lparr> import_calls = [call], address_calls = [], exit_code = Some 1,
                     rejected = False \<rparr>
               | Inr result \<Rightarrow>
                   \<lparr> import_calls = [call],
                     address_calls = [(result_keyId result, region call)],
                     exit_code = None, rejected = False \<rparr>)))"

subsection \<open>Runs of the import command\<close>

definition ex_argv :: "string list" where
  "ex_argv =
     [''node'', ''import.js'',
      ''0x1234567890abcdef1234567890abcdef1234567890abcdef1234567890abcdef'',
      ''my-key'', ''Project=MyProject'']"

definition ex_env :: process_env where
  "ex_env = \<lparr> AWS_REGION = None, KMS_TAGS = None \<rparr>"

text \<open>An environment whose \<open>KMS_TAGS\<close> is the text \<open>[null]\<close>, and what \<open>JSON.parse\<close> makes of it.\<close>

definition ex_env_null :: process_env where
  "ex_env_null = \<lparr> AWS_REGION = None, KMS_TAGS = Some ''[null]'' \<rparr>"

definition ex_parse_array :: "string \<Rightarrow> nat json list option" where
  "ex_parse_array s = (if s = ''[null]'' then Some [JNull] else None)"

definition ex_importKMSKey :: "nat import_args \<Rightarrow> js_error + import_result" where
  "ex_importKMSKey call =
     Inr \<lparr> result_keyId = ''k1'', result_keyArn = ''arn:k1'',
           result_aliasName = ''alias/'' @ aliasName call \<rparr>"

section \<open>The signature recovery engine (spec, section 4.3)\<close>

text \<open>
  The engine is core/signing, which is not among the source files at hand: only its
  caller src/cli/import.ts is. The definitions of this section follow the words of the
  specification. The remote service, the address resolver of section 4.2 and the
  secp256k1 recovery procedure are collaborators of the engine and are arguments of
  \<open>sign\<close>.
\<close>

type_synonym byte = "8 word"

text \<open>
  Modelled from the spec: the failure modes of \<open>sign\<close> (section 4.3), with those of the
  resolver it calls first (section 4.2) and the format error of section 7 for a raw
  signature that is not the DER structure of section 3. core/signing is missing.
\<close>

datatype sign_error =
    DigestLengthInvalid
  | SignatureRecoveryFailed
  | ServiceUnavailable
  | KeyNotFound
  | MalformedPublicKey
  | MalformedSignature


text \<open>
  Modelled from the spec: the order of the secp256k1 group, the \<open>curveOrder\<close> of step 3.
  core/signing is missing.
\<close>

definition curveOrder :: int where
  "curveOrder = 0xFFFFFFFFFFFFFFFFFFFFFFFFFFFFFFFEBAAEDCE6AF48A03BBFD25E8CD0364141"

text \<open>
  Modelled from the spec: step 2 reads an INTEGER "as big-endian unsigned"; a leading
  zero byte does not change the value, which is how it is stripped. core/signing is
  missing.
\<close>

definition be_to_nat :: "byte list \<Rightarrow> nat" where
  "be_to_nat bs = foldl (\<lambda>acc b. acc * 256 + unat b) 0 bs"

text \<open>
  Modelled from the spec: the length octets of X.690 DER (section 6), short form below
  \<open>0x80\<close> and long form with a count of length bytes above it. core/signing is missing.
\<close>

fun der_length :: "byte list \<Rightarrow> (nat \<times> byte list) option" where
  "der_length [] = None"
| "der_length (l # rest) =
     (if l < 0x80 then Some (unat l, rest)
      else if l = 0x80 \<or> length rest < unat l - 0x80 then None
      else Some (be_to_nat (take (unat l - 0x80) rest), drop (unat l - 0x80) rest))"

text \<open>
  Modelled from the spec: one DER element with the expected tag, giving its content
  and the bytes after it (section 6, X.690). core/signing is missing.
\<close>

definition der_tlv :: "byte \<Rightarrow> byte list \<Rightarrow> (byte list \<times> byte list) option" where
  "der_tlv tag bytes =
     (case bytes of
        [] \<Rightarrow> None
      | t # after_tag \<Rightarrow>
          (if t \<noteq> tag then None
           else (case der_length after_tag of
                   None \<Rightarrow> None
                 | Some (n, rest) \<Rightarrow>
                     (if length rest < n then None else Some (take n rest, drop n rest)))))"

text \<open>
  Modelled from the spec: step 2, "parse the SEQUENCE of two INTEGERs into \<open>r\<close> and \<open>s\<close> as
  big-endian unsigned values". Nothing may follow the second INTEGER or the SEQUENCE.
  core/signing is missing.
\<close>

definition der_decode_signature :: "byte list \<Rightarrow> (int \<times> int) option" where
  "der_decode_signature raw =
     (case der_tlv 0x30 raw of
        None \<Rightarrow> None
      | Some (body, trailing) \<Rightarrow>
          (if trailing \<noteq> [] then None
           else (case der_tlv 0x02 body of
                   None \<Rightarrow> None
                 | Some (rb, after_r) \<Rightarrow>
                     (case der_tlv 0x02 after_r of
                        None \<Rightarrow> None
                      | Some (sb, after_s) \<Rightarrow>
                          (if after_s \<noteq> [] then None
                           else Some (int (be_to_nat rb), int (be_to_nat sb)))))))"

text \<open>
  Modelled from the spec: step 3, "if \<open>s > curveOrder / 2\<close>, replace \<open>s\<close> with
  \<open>curveOrder - s\<close>". core/signing is missing.
\<close>

definition canonicalize :: "int \<times> int \<Rightarrow> int \<times> int" where
  "canonicalize sg =
     (case sg of (r, s) \<Rightarrow> if s > curveOrder div 2 then (r, curveOrder - s) else (r, s))"

text \<open>
  Modelled from the spec: the bytes of a number, big-endian and without leading zeros
  (none for 0); the inverse of reading an INTEGER "as big-endian unsigned" (step 2).
  core/signing is missing.
\<close>

function nat_to_be :: "nat \<Rightarrow> byte list" where
  "nat_to_be n = (if n = 0 then [] else nat_to_be (n div 256) @ [of_nat (n mod 256)])"
  by pat_completeness auto
termination
  by (relation "measure id") auto

declare nat_to_be.simps [simp del]

text \<open>
  Modelled from the spec: the content of a DER INTEGER, with the "leading zero byte used
  to keep INTEGER encoding non-negative" (step 2) when the top bit would be set.
  core/signing is missing.
\<close>

definition der_encode_integer :: "nat \<Rightarrow> byte list" where
  "der_encode_integer n =
     (case nat_to_be n of
        [] \<Rightarrow> [0]
      | b # bs \<Rightarrow> if 0x80 \<le> b then 0 # b # bs else b # bs)"

text \<open>
  Modelled from the spec: the length octets of X.690 DER (section 6) written out, short
  form below 128. core/signing is missing.
\<close>

definition der_encode_length :: "nat \<Rightarrow> byte list" where
  "der_encode_length n =
     (if n < 128 then [of_nat n]
      else of_nat (128 + length (nat_to_be n)) # nat_to_be n)"

text \<open>
  Modelled from the spec: one DER element written out (section 6, X.690): tag, length,
  content. core/signing is missing.
\<close>

definition der_encode_tlv :: "byte \<Rightarrow> byte list \<Rightarrow> byte list" where
  "der_encode_tlv tag content = tag # der_encode_length (length content) @ content"

text \<open>
  Modelled from the spec: the RawSignature of section 3 written out, "SEQUENCE of two
  INTEGERs, each with its own optional leading zero padding per DER rules". This is the
  re-encoding of the round-trip property of section 8. core/signing is missing.
\<close>

definition der_encode_signature :: "int \<times> int \<Rightarrow> byte list" where
  "der_encode_signature sg =
     (case sg of (r, s) \<Rightarrow>
        der_encode_tlv 0x30
          (der_encode_tlv 0x02 (der_encode_integer (nat r)) @
           der_encode_tlv 0x02 (der_encode_integer (nat s))))"

text \<open>
  Modelled from the spec: "DER-decoding then re-encoding an \<open>(r, s)\<close> pair through the
  canonicalization step" (section 8). core/signing is missing.
\<close>

definition renormalize :: "byte list \<Rightarrow> byte list option" where
  "renormalize raw =
     (case der_decode_signature raw of
        None \<Rightarrow> None
      | Some sg \<Rightarrow> Some (der_encode_signature (canonicalize sg)))"



subsection \<open>A high-s signature from the service\<close>

text \<open>
  The DER signature with \<open>r = 1\<close> and \<open>s = curveOrder - 1\<close>, a digest of 32 zero bytes,
  and a recovery procedure that finds the address for the pair \<open>(1, 1)\<close> with the
  candidate 1 only.
\<close>

definition ex_raw_signature :: "byte list" where
  "ex_raw_signature =
     [0x30, 0x26, 0x02, 0x01, 0x01, 0x02, 0x21, 0x00,
      0xFF, 0xFF, 0xFF, 0xFF, 0xFF, 0xFF, 0xFF, 0xFF,
      0xFF, 0xFF, 0xFF, 0xFF, 0xFF, 0xFF, 0xFF, 0xFE,
      0xBA, 0xAE, 0xDC, 0xE6, 0xAF, 0x48, 0xA0, 0x3B,
      0xBF, 0xD2, 0x5E, 0x8C, 0xD0, 0x36, 0x41, 0x40]"






section \<open>Properties of listKMSKeys\<close>

subsection \<open>The tag cache, the keys processed and the entries pushed\<close>

lemma map_of_fold_cache_set:
  "map_of (fold cache_set (map (\<lambda>key. (key, g (or_empty (KeyId key)))) ks) c) kid =
     (if kid \<in> (\<lambda>key. or_empty (KeyId key)) ` set ks then Some (g kid) else map_of c kid)"
  by (induction ks arbitrary: c) (auto simp: cache_set_def update_conv')

lemma tagsCache_lookup:
  "map_of (build_tagsCache kmsClient (Some f) allKeys) kid =
     (if kid \<in> (\<lambda>key. or_empty (KeyId key)) ` {key \<in> set allKeys. truthy (KeyId key)}
      then Some (fetchTags kmsClient kid) else None)"
  unfolding build_tagsCache_def tag_results_def
  by (simp add: map_of_fold_cache_set)

lemma tagsCache_empty: "build_tagsCache kmsClient None allKeys = []"
  by (simp add: build_tagsCache_def)

lemma process_keys_fst:
  "fst (process_keys c d tf am tc ks) =
     map (\<lambda>key. fst (process_key c d tf am tc key)) (filter (\<lambda>key. truthy (KeyId key)) ks)"
  by (induction ks) (auto split: prod.splits)

lemma keyId_process_key: "keyId (fst (process_key c d tf am tc key)) = or_empty (KeyId key)"
  by (auto simp: process_key_def init_keyInfo_def set_metadata_def Let_def split: sum.splits option.splits)

lemma keysToProcess_filter:
  "key \<in> set (keysToProcess c (Some f) allKeys) \<longleftrightarrow>
     key \<in> set allKeys \<and> truthy (KeyId key) \<and>
     matchesTagFilter (Some f) (fetchTags c (or_empty (KeyId key)))"
  by (force simp: keysToProcess_def tag_results_def)

lemma tags_process_key_cached:
  assumes "map_of tc (or_empty (KeyId key)) = Some (Some t)"
  shows "tags (fst (process_key c d tf am tc key)) = Some t"
  using assms
  by (auto simp: process_key_def init_keyInfo_def set_metadata_def Let_def
           split: sum.splits option.splits)

lemma matchesTagFilter_Some:
  "matchesTagFilter (Some f) tgs \<longleftrightarrow>
     (\<exists>t. tgs = Some t \<and> map_of t (filter_key f) = Some (filter_value f))"
  by (auto simp: matchesTagFilter_def prop_is_def split: option.splits)

lemma listKMSKeys_Inr_cases:
  assumes "listKMSKeys c d tf = Inr (keys, warnings)"
  shows "(keys = [] \<and> (send_ListKeys c = Inr None \<or> send_ListKeys c = Inr (Some []))) \<or>
    (\<exists>allKeys aliases. send_ListKeys c = Inr (Some allKeys) \<and> allKeys \<noteq> [] \<and>
       send_ListAliases c = Inr aliases \<and>
       keys = map (\<lambda>key. fst (process_key c (case d of None \<Rightarrow> True | Some b \<Rightarrow> b) tf
                (build_aliasMap aliases) (build_tagsCache c tf allKeys) key))
              (filter (\<lambda>key. truthy (KeyId key)) (keysToProcess c tf allKeys)))"
proof -
  have pk: "keys = map (\<lambda>key. fst (process_key c' d' tf am tc key)) (filter (\<lambda>key. truthy (KeyId key)) ks)"
    if "process_keys c' d' tf am tc ks = (keys, warnings)" for c' d' am tc ks
    using process_keys_fst [of c' d' tf am tc ks] that by simp
  show ?thesis
    using assms
    by (auto simp: listKMSKeys_def split: sum.splits option.splits if_splits dest!: pk)
qed

lemma listKMSKeys_Inl_iff:
  "listKMSKeys c d tf = Inl err \<longleftrightarrow>
     (\<exists>e. err = Error (''Failed to list KMS keys: '' @ message e) \<and>
          (send_ListKeys c = Inl e \<or>
           (\<exists>ks. send_ListKeys c = Inr (Some ks) \<and> ks \<noteq> [] \<and> send_ListAliases c = Inl e)))"
  by (auto simp: listKMSKeys_def list_failure_def split: sum.splits option.splits)

lemma keysToProcess_None: "keysToProcess c None allKeys = allKeys"
  by (simp add: keysToProcess_def)

lemma listed_ids_keysToProcess:
  "listed_ids (keysToProcess c (Some f) allKeys) =
     filter (\<lambda>kid. matchesTagFilter (Some f) (fetchTags c kid)) (listed_ids allKeys)"
  by (induction allKeys) (auto simp: listed_ids_def keysToProcess_def tag_results_def)

lemma listKMSKeys_ids:
  assumes "listKMSKeys c d tf = Inr (keys, w)" and "send_ListKeys c = Inr (Some ks)"
  shows "map keyId keys = listed_ids (keysToProcess c tf ks)"
proof (cases "ks = []")
  case True
  with assms show ?thesis
    by (cases tf) (auto simp: listKMSKeys_def listed_ids_def keysToProcess_def tag_results_def)
next
  case False
  with listKMSKeys_Inr_cases [OF assms(1)] assms(2) show ?thesis
    by (auto simp: listed_ids_def keyId_process_key comp_def)
qed

lemma process_key_describe_failed:
  assumes "send_DescribeKey c (or_empty (KeyId key)) = Inl e"
  shows "fst (process_key c True tf am tc key) = init_keyInfo am tc key"
  using assms by (simp add: process_key_def Let_def)

lemma no_details_init: "no_details (init_keyInfo am tc key)"
  by (simp add: no_details_def init_keyInfo_def)

lemma tags_init_empty_cache: "tags (init_keyInfo am [] key) = None"
  by (simp add: init_keyInfo_def)

lemma tags_process_key_unfiltered:
  "tags (fst (process_key c d None am [] key)) = None \<or>
   tags (fst (process_key c d None am [] key)) = fetchTags c (or_empty (KeyId key))"
  by (auto simp: process_key_def init_keyInfo_def set_metadata_def Let_def
           split: sum.splits option.splits)

lemma fetchTags_failed: "send_ListResourceTags c kid = Inl e \<Longrightarrow> fetchTags c kid = None"
  by (simp add: fetchTags_def)

lemma listKMSKeys_info_cases:
  assumes "listKMSKeys c d tf = Inr (keys, w)" and "info \<in> set keys"
  obtains allKeys aliases key where
    "send_ListKeys c = Inr (Some allKeys)"
    "key \<in> set (keysToProcess c tf allKeys)"
    "info = fst (process_key c (case d of None \<Rightarrow> True | Some b \<Rightarrow> b) tf
                  (build_aliasMap aliases) (build_tagsCache c tf allKeys) key)"
  using listKMSKeys_Inr_cases [OF assms(1)] assms(2) by auto


lemma unfiltered_tags_failed:
  assumes run: "listKMSKeys c d None = Inr (keys, w)" and info: "info \<in> set keys"
    and "send_ListResourceTags c (keyId info) = Inl e"
  shows "tags info = None"
proof -
  from assms(3) have none: "fetchTags c (keyId info) = None"
    by (rule fetchTags_failed)
  from run info obtain allKeys aliases key where
    "info = fst (process_key c (case d of None \<Rightarrow> True | Some b \<Rightarrow> b) None
                  (build_aliasMap aliases) (build_tagsCache c None allKeys) key)"
    by (rule listKMSKeys_info_cases)
  then have i: "info = fst (process_key c (case d of None \<Rightarrow> True | Some b \<Rightarrow> b) None
                  (build_aliasMap aliases) [] key)"
    by (simp add: tagsCache_empty)
  have "keyId info = or_empty (KeyId key)"
    unfolding i by (rule keyId_process_key)
  with none tags_process_key_unfiltered [of c _ _ key] i show "tags info = None"
    by metis
qed

lemma describe_failed_init:
  assumes run: "listKMSKeys c d tf = Inr (keys, w)" and info: "info \<in> set keys"
    and d: "d \<noteq> Some False" and fail: "send_DescribeKey c (keyId info) = Inl e"
  shows "\<exists>am allKeys key. info = init_keyInfo am (build_tagsCache c tf allKeys) key"
proof -
  from d have details: "(case d of None \<Rightarrow> True | Some b \<Rightarrow> b) = True"
    by (cases d) auto
  from run info obtain allKeys aliases key where
    "info = fst (process_key c (case d of None \<Rightarrow> True | Some b \<Rightarrow> b) tf
                  (build_aliasMap aliases) (build_tagsCache c tf allKeys) key)"
    by (rule listKMSKeys_info_cases)
  then have i: "info = fst (process_key c True tf (build_aliasMap aliases)
                  (build_tagsCache c tf allKeys) key)"
    by (simp add: details)
  have "keyId info = or_empty (KeyId key)"
    unfolding i by (rule keyId_process_key)
  with fail have "send_DescribeKey c (or_empty (KeyId key)) = Inl e"
    by simp
  then have "info = init_keyInfo (build_aliasMap aliases) (build_tagsCache c tf allKeys) key"
    unfolding i by (rule process_key_describe_failed)
  then show ?thesis by blast
qed

lemma describe_failed_no_details:
  assumes "listKMSKeys c d tf = Inr (keys, w)" and "info \<in> set keys"
    and "d \<noteq> Some False" and "send_DescribeKey c (keyId info) = Inl e"
  shows "no_details info"
  using describe_failed_init [OF assms] by (auto simp: no_details_init)

lemma describe_failed_no_tags:
  assumes "listKMSKeys c d None = Inr (keys, w)" and "info \<in> set keys"
    and "d \<noteq> Some False" and "send_DescribeKey c (keyId info) = Inl e"
  shows "tags info = None"
  using describe_failed_init [OF assms] by (auto simp: tagsCache_empty tags_init_empty_cache)

lemma filtered_tags_failed:
  assumes run: "listKMSKeys c d (Some f) = Inr (keys, w)"
    and "send_ListResourceTags c kid = Inl e"
  shows "kid \<notin> keyId ` set keys"
proof
  from assms(2) have none: "fetchTags c kid = None"
    by (rule fetchTags_failed)
  assume "kid \<in> keyId ` set keys"
  then obtain info where info: "info \<in> set keys" and k: "keyId info = kid" by auto
  from run info obtain allKeys aliases key where
    key: "key \<in> set (keysToProcess c (Some f) allKeys)"
    and i: "info = fst (process_key c (case d of None \<Rightarrow> True | Some b \<Rightarrow> b) (Some f)
                (build_aliasMap aliases) (build_tagsCache c (Some f) allKeys) key)"
    by (rule listKMSKeys_info_cases)
  have "keyId info = or_empty (KeyId key)"
    unfolding i by (rule keyId_process_key)
  with key k none show False
    by (simp add: keysToProcess_filter matchesTagFilter_Some)
qed

lemma unfiltered_ids:
  assumes "listKMSKeys c d None = Inr (keys, w)" and "send_ListKeys c = Inr (Some ks)"
  shows "map keyId keys = listed_ids ks"
  using listKMSKeys_ids [OF assms] by (simp add: keysToProcess_None)

lemma filtered_ids:
  assumes "listKMSKeys c d (Some f) = Inr (keys, w)" and "send_ListKeys c = Inr (Some ks)"
  shows "map keyId keys = filter (\<lambda>kid. matchesTagFilter (Some f) (fetchTags c kid)) (listed_ids ks)"
  using listKMSKeys_ids [OF assms] by (simp add: listed_ids_keysToProcess)

subsection \<open>What fetchTags makes of an answer\<close>

lemma map_of_collect_tag:
  "map_of (collect_tag tag acc) k =
     (if carries k tag \<and> k \<noteq> [] \<and> k \<noteq> ''__proto__'' then TagValue tag else map_of acc k)"
  by (auto simp: collect_tag_def prop_assign_def carries_def update_conv' split: option.splits)

lemma map_of_fold_collect_tag:
  "map_of (fold collect_tag ts acc) k =
     (if k = [] \<or> k = ''__proto__'' then map_of acc k
      else (case rev (filter (carries k) ts) of [] \<Rightarrow> map_of acc k | tag # earlier \<Rightarrow> TagValue tag))"
proof (induction ts rule: rev_induct)
  case Nil
  then show ?case by simp
next
  case (snoc x xs)
  then show ?case
    by (cases "carries k x") (auto simp: map_of_collect_tag)
qed

lemma map_of_collected: "map_of (fold collect_tag ts []) k = answered_value ts k"
  by (simp add: map_of_fold_collect_tag answered_value_def split: list.splits)

lemma answered_value_Nil: "answered_value [] k = None"
  by (simp add: answered_value_def)

lemma fetchTags_Some_iff:
  "fetchTags c kid = Some t \<longleftrightarrow>
     (\<exists>ts. send_ListResourceTags c kid = Inr (Some ts) \<and> ts \<noteq> [] \<and> t = fold collect_tag ts [])"
  by (auto simp: fetchTags_def split: sum.splits option.splits)

lemma fetchTags_answered:
  assumes "fetchTags c kid = Some t"
  shows "\<exists>ts. send_ListResourceTags c kid = Inr (Some ts) \<and> ts \<noteq> [] \<and>
           (\<forall>k. map_of t k = answered_value ts k)"
  using assms by (auto simp: fetchTags_Some_iff map_of_collected)

lemma matches_answer:
  "matchesTagFilter (Some f) (fetchTags c kid) \<longleftrightarrow>
     (\<exists>ts. send_ListResourceTags c kid = Inr (Some ts) \<and>
           answered_value ts (filter_key f) = Some (filter_value f))"
proof
  assume "matchesTagFilter (Some f) (fetchTags c kid)"
  then obtain t where t: "fetchTags c kid = Some t"
    and v: "map_of t (filter_key f) = Some (filter_value f)"
    by (auto simp: matchesTagFilter_Some)
  from fetchTags_answered [OF t] v
  show "\<exists>ts. send_ListResourceTags c kid = Inr (Some ts) \<and>
           answered_value ts (filter_key f) = Some (filter_value f)"
    by auto
next
  assume "\<exists>ts. send_ListResourceTags c kid = Inr (Some ts) \<and>
           answered_value ts (filter_key f) = Some (filter_value f)"
  then obtain ts where r: "send_ListResourceTags c kid = Inr (Some ts)"
    and v: "answered_value ts (filter_key f) = Some (filter_value f)"
    by blast
  from v have "ts \<noteq> []" by (auto simp: answered_value_Nil)
  with r have "fetchTags c kid = Some (fold collect_tag ts [])"
    by (simp add: fetchTags_Some_iff)
  with v show "matchesTagFilter (Some f) (fetchTags c kid)"
    by (simp add: matchesTagFilter_Some map_of_collected)
qed

text \<open>What the entry of a key that passed the filter holds.\<close>

lemma filtered_info:
  assumes run: "listKMSKeys c d (Some f) = Inr (keys, w)" and info: "info \<in> set keys"
  shows "\<exists>ts t. send_ListResourceTags c (keyId info) = Inr (Some ts) \<and> ts \<noteq> [] \<and>
           fetchTags c (keyId info) = Some t \<and> tags info = Some t \<and>
           (\<forall>k. map_of t k = answered_value ts k) \<and>
           answered_value ts (filter_key f) = Some (filter_value f)"
proof -
  from run info obtain allKeys aliases key where
    key: "key \<in> set (keysToProcess c (Some f) allKeys)"
    and i: "info = fst (process_key c (case d of None \<Rightarrow> True | Some b \<Rightarrow> b)
                (Some f) (build_aliasMap aliases) (build_tagsCache c (Some f) allKeys) key)"
    by (rule listKMSKeys_info_cases)
  from key have mem: "key \<in> set allKeys" and tr: "truthy (KeyId key)"
    and m: "matchesTagFilter (Some f) (fetchTags c (or_empty (KeyId key)))"
    by (simp_all add: keysToProcess_filter)
  from m obtain t where t: "fetchTags c (or_empty (KeyId key)) = Some t"
    and v: "map_of t (filter_key f) = Some (filter_value f)"
    by (auto simp: matchesTagFilter_Some)
  have "map_of (build_tagsCache c (Some f) allKeys) (or_empty (KeyId key)) = Some (Some t)"
    using mem tr t by (auto simp: tagsCache_lookup)
  then have tg: "tags info = Some t"
    unfolding i by (rule tags_process_key_cached)
  have id: "keyId info = or_empty (KeyId key)"
    unfolding i by (rule keyId_process_key)
  from fetchTags_answered [OF t] obtain ts where
    "send_ListResourceTags c (or_empty (KeyId key)) = Inr (Some ts)" "ts \<noteq> []"
    "\<forall>k. map_of t k = answered_value ts k"
    by blast
  with t v tg id show ?thesis by auto
qed

lemma filtered_ids_answered:
  assumes "listKMSKeys c d (Some f) = Inr (keys, w)" and "send_ListKeys c = Inr (Some ks)"
  shows "map keyId keys =
           filter (\<lambda>kid. \<exists>ts. send_ListResourceTags c kid = Inr (Some ts) \<and>
                     answered_value ts (filter_key f) = Some (filter_value f))
             (listed_ids ks)"
  using filtered_ids [OF assms] by (simp add: matches_answer)

lemma describe_failed_filtered:
  assumes "listKMSKeys c d (Some f) = Inr (keys, w)" and "info \<in> set keys"
    and "d \<noteq> Some False" and "send_DescribeKey c (keyId info) = Inl e"
  shows "no_details info \<and>
         (\<exists>ts t. send_ListResourceTags c (keyId info) = Inr (Some ts) \<and>
            fetchTags c (keyId info) = Some t \<and> tags info = Some t \<and>
            (\<forall>k. map_of t k = answered_value ts k))"
  using describe_failed_no_details [OF assms] filtered_info [OF assms(1,2)] by metis

subsection \<open>The runs on the example service\<close>

lemma ex_run_filtered_details:
  "listKMSKeys ex_client (Some True) (Some ex_tag_filter) =
     Inr ([ex_info_k1 (Some [(''Purpose'', ''Eth'')])],
          [''Warning: Could not describe key k1: AccessDenied''])"
  by (simp add: listKMSKeys_def ex_client_def ex_tag_filter_def ex_info_k1_def
      keysToProcess_def tag_results_def build_tagsCache_def cache_set_def build_aliasMap_def
      set_alias_def truthy_def or_empty_def fetchTags_def collect_tag_def prop_assign_def
      matchesTagFilter_def prop_is_def process_key_def init_keyInfo_def Let_def describe_warning_def)

lemma ex_tags_k1:
  "send_ListResourceTags ex_client ''k1'' =
     Inr (Some [\<lparr> TagKey = Some ''Purpose'', TagValue = Some ''Test'' \<rparr>,
                \<lparr> TagKey = Some ''Purpose'', TagValue = Some ''Eth'' \<rparr>,
                \<lparr> TagKey = Some ''Team'', TagValue = None \<rparr>])"
  by (simp add: ex_client_def)

lemma ex_answered:
  "answered_value [\<lparr> TagKey = Some ''Purpose'', TagValue = Some ''Test'' \<rparr>,
                   \<lparr> TagKey = Some ''Purpose'', TagValue = Some ''Eth'' \<rparr>,
                   \<lparr> TagKey = Some ''Team'', TagValue = None \<rparr>] k =
     (if k = ''Purpose'' then Some ''Eth'' else None)"
  by (simp add: answered_value_def carries_def)

subsection \<open>Filtering by tag\<close>

text \<open>
  C9. When \<open>listKMSKeys\<close> is called with a \<open>tagFilter\<close> and returns, every key of the
  result has a tag map that was fetched: the \<open>ListResourceTags\<close> request for the key was
  answered with tags, the \<open>tags\<close> field of the entry is the object \<open>fetchTags\<close> built from
  that answer, the object holds under every key the value the answer gives it, and the
  answer gives \<open>tagFilter.key\<close> the value \<open>tagFilter.value\<close>. A key whose tag request
  failed, whose answer holds no tags, or whose answer gives \<open>tagFilter.key\<close> no value or
  another value is not in the result.
\<close>

theorem listKMSKeys_tagFilter:
  assumes "listKMSKeys kmsClient includeDetails (Some f) = Inr (keys, warnings)"
  shows "(\<forall>info \<in> set keys. \<exists>ts t.
            send_ListResourceTags kmsClient (keyId info) = Inr (Some ts) \<and>
            fetchTags kmsClient (keyId info) = Some t \<and> tags info = Some t \<and>
            (\<forall>k. map_of t k = answered_value ts k) \<and>
            answered_value ts (filter_key f) = Some (filter_value f) \<and>
            map_of t (filter_key f) = Some (filter_value f))
       \<and> (\<forall>kid. (\<exists>e. send_ListResourceTags kmsClient kid = Inl e) \<longrightarrow> kid \<notin> keyId ` set keys)
       \<and> (\<forall>kid. send_ListResourceTags kmsClient kid = Inr None \<or>
                 send_ListResourceTags kmsClient kid = Inr (Some []) \<longrightarrow> kid \<notin> keyId ` set keys)
       \<and> (\<forall>kid ts. send_ListResourceTags kmsClient kid = Inr (Some ts) \<and>
                 answered_value ts (filter_key f) \<noteq> Some (filter_value f)
              \<longrightarrow> kid \<notin> keyId ` set keys)"
proof (intro conjI ballI allI impI)
  fix info assume "info \<in> set keys"
  from filtered_info [OF assms this]
  show "\<exists>ts t. send_ListResourceTags kmsClient (keyId info) = Inr (Some ts) \<and>
            fetchTags kmsClient (keyId info) = Some t \<and> tags info = Some t \<and>
            (\<forall>k. map_of t k = answered_value ts k) \<and>
            answered_value ts (filter_key f) = Some (filter_value f) \<and>
            map_of t (filter_key f) = Some (filter_value f)"
    by metis
next
  fix kid assume "\<exists>e. send_ListResourceTags kmsClient kid = Inl e"
  then show "kid \<notin> keyId ` set keys"
    using filtered_info [OF assms] by fastforce
next
  fix kid
  assume "send_ListResourceTags kmsClient kid = Inr None \<or>
          send_ListResourceTags kmsClient kid = Inr (Some [])"
  then show "kid \<notin> keyId ` set keys"
    using filtered_info [OF assms] by fastforce
next
  fix kid ts
  assume "send_ListResourceTags kmsClient kid = Inr (Some ts) \<and>
          answered_value ts (filter_key f) \<noteq> Some (filter_value f)"
  then show "kid \<notin> keyId ` set keys"
    using filtered_info [OF assms] by fastforce
qed

text \<open>
  The theorem at \<open>ex_client\<close> with the filter \<open>Purpose=Eth\<close>: the answer for \<open>k1\<close> gives
  \<open>Purpose\<close> the value \<open>Eth\<close> (the later of its two entries) and \<open>k1\<close> is returned with
  these tags; the key \<open>k2\<close>, whose tags cannot be listed, is not returned.
\<close>

theorem listKMSKeys_tagFilter_witness:
  "listKMSKeys ex_client (Some True) (Some ex_tag_filter) =
     Inr ([ex_info_k1 (Some [(''Purpose'', ''Eth'')])],
          [''Warning: Could not describe key k1: AccessDenied''])
   \<and> (\<exists>ts t. send_ListResourceTags ex_client ''k1'' = Inr (Some ts) \<and>
          fetchTags ex_client ''k1'' = Some t \<and>
          tags (ex_info_k1 (Some [(''Purpose'', ''Eth'')])) = Some t \<and>
          (\<forall>k. map_of t k = answered_value ts k) \<and>
          answered_value ts ''Purpose'' = Some ''Eth'' \<and>
          map_of t ''Purpose'' = Some ''Eth'')
   \<and> send_ListResourceTags ex_client ''k1'' =
       Inr (Some [\<lparr> TagKey = Some ''Purpose'', TagValue = Some ''Test'' \<rparr>,
                  \<lparr> TagKey = Some ''Purpose'', TagValue = Some ''Eth'' \<rparr>,
                  \<lparr> TagKey = Some ''Team'', TagValue = None \<rparr>])
   \<and> tags (ex_info_k1 (Some [(''Purpose'', ''Eth'')])) = Some [(''Purpose'', ''Eth'')]
   \<and> send_ListResourceTags ex_client ''k2'' = Inl (Error ''AccessDenied'')
   \<and> ''k2'' \<notin> keyId ` set [ex_info_k1 (Some [(''Purpose'', ''Eth'')])]"
proof -
  note run = ex_run_filtered_details
  note inst = listKMSKeys_tagFilter [OF run]
  have k1: "ex_info_k1 (Some [(''Purpose'', ''Eth'')]) \<in> set [ex_info_k1 (Some [(''Purpose'', ''Eth'')])]"
    by simp
  have id: "keyId (ex_info_k1 (Some [(''Purpose'', ''Eth'')])) = ''k1''"
    and tg: "tags (ex_info_k1 (Some [(''Purpose'', ''Eth'')])) = Some [(''Purpose'', ''Eth'')]"
    and f: "filter_key ex_tag_filter = ''Purpose''" "filter_value ex_tag_filter = ''Eth''"
    by (simp_all add: ex_info_k1_def ex_tag_filter_def)
  have k2: "send_ListResourceTags ex_client ''k2'' = Inl (Error ''AccessDenied'')"
    by (simp add: ex_client_def)
  then have k2': "\<exists>e. send_ListResourceTags ex_client ''k2'' = Inl e"
    by blast
  note a = inst [THEN conjunct1, rule_format, OF k1, unfolded id f]
  note b = inst [THEN conjunct2, THEN conjunct1, rule_format, OF k2']
  from run a ex_tags_k1 tg k2 b show ?thesis
    by (intro conjI)
qed

subsection \<open>Failures of the service\<close>

text \<open>
  C10, as stated, says that a key whose tags could not be fetched is still in the
  result. With a \<open>tagFilter\<close> it is not: \<open>ex_client\<close> lists \<open>k1\<close> and \<open>k2\<close>, refuses to list
  the tags of \<open>k2\<close>, and \<open>listKMSKeys\<close> returns \<open>k1\<close> alone.
\<close>

theorem listKMSKeys_excludes_unfetched_counterexample:
  "send_ListKeys ex_client =
     Inr (Some [\<lparr> KeyId = Some ''k1'', KeyArn = Some ''arn:k1'' \<rparr>,
                \<lparr> KeyId = Some ''k2'', KeyArn = None \<rparr>])
   \<and> send_ListResourceTags ex_client ''k2'' = Inl (Error ''AccessDenied'')
   \<and> listKMSKeys ex_client (Some False) (Some ex_tag_filter) =
       Inr ([ex_info_k1 (Some [(''Purpose'', ''Eth'')])], [])"
  by (simp add: listKMSKeys_def ex_client_def ex_tag_filter_def ex_info_k1_def
      keysToProcess_def tag_results_def build_tagsCache_def cache_set_def build_aliasMap_def
      set_alias_def truthy_def or_empty_def fetchTags_def collect_tag_def prop_assign_def
      matchesTagFilter_def prop_is_def process_key_def init_keyInfo_def Let_def)

text \<open>
  C10, amended. \<open>listKMSKeys\<close> throws exactly when the list-keys call fails, or it gave
  at least one key and the list-aliases call fails; the message of the error is then
  \<open>Failed to list KMS keys: \<close> followed by the message of the failure. So no failure to
  describe a key or to list its tags makes it throw. Without a \<open>tagFilter\<close> every listed
  key with an id is in the result, in the order of the listing; its \<open>tags\<close> are undefined
  when its tags could not be listed, and its detail fields and its \<open>tags\<close> are undefined
  when details were asked for and it could not be described. With a \<open>tagFilter\<close> the
  result holds the listed keys whose answered tags match, so a key whose tags could not
  be listed is left out; a key of the result that could not be described has undefined
  detail fields, and its \<open>tags\<close> are the tags fetched for the filter: the object built
  from the answer to its \<open>ListResourceTags\<close> request.
\<close>

theorem listKMSKeys_failures:
  "(listKMSKeys c d tf = Inl err \<longleftrightarrow>
      (\<exists>e. err = Error (''Failed to list KMS keys: '' @ message e) \<and>
           (send_ListKeys c = Inl e \<or>
            (\<exists>ks. send_ListKeys c = Inr (Some ks) \<and> ks \<noteq> [] \<and> send_ListAliases c = Inl e))))
   \<and> (\<forall>keys w. listKMSKeys c d None = Inr (keys, w) \<longrightarrow>
        (\<forall>ks. send_ListKeys c = Inr (Some ks) \<longrightarrow> map keyId keys = listed_ids ks) \<and>
        (\<forall>info \<in> set keys.
           ((\<exists>e. send_ListResourceTags c (keyId info) = Inl e) \<longrightarrow> tags info = None) \<and>
           (d \<noteq> Some False \<and> (\<exists>e. send_DescribeKey c (keyId info) = Inl e) \<longrightarrow>
              no_details info \<and> tags info = None)))
   \<and> (\<forall>f keys w. listKMSKeys c d (Some f) = Inr (keys, w) \<longrightarrow>
        (\<forall>ks. send_ListKeys c = Inr (Some ks) \<longrightarrow>
           map keyId keys =
             filter (\<lambda>kid. \<exists>ts. send_ListResourceTags c kid = Inr (Some ts) \<and>
                       answered_value ts (filter_key f) = Some (filter_value f))
               (listed_ids ks)) \<and>
        (\<forall>kid. (\<exists>e. send_ListResourceTags c kid = Inl e) \<longrightarrow> kid \<notin> keyId ` set keys) \<and>
        (\<forall>info \<in> set keys.
           d \<noteq> Some False \<and> (\<exists>e. send_DescribeKey c (keyId info) = Inl e) \<longrightarrow>
             no_details info \<and>
             (\<exists>ts t. send_ListResourceTags c (keyId info) = Inr (Some ts) \<and>
                fetchTags c (keyId info) = Some t \<and> tags info = Some t \<and>
                (\<forall>k. map_of t k = answered_value ts k))))"
  apply (intro conjI allI impI ballI)
  subgoal by (rule listKMSKeys_Inl_iff)
  subgoal by (erule (1) unfiltered_ids)
  subgoal by (blast intro: unfiltered_tags_failed)
  subgoal by (blast intro: describe_failed_no_details)
  subgoal by (blast intro: describe_failed_no_tags)
  subgoal by (erule (1) filtered_ids_answered)
  subgoal by (blast dest: filtered_tags_failed)
  subgoal by (blast intro: describe_failed_no_details)
  subgoal by (blast dest: describe_failed_filtered)
  done

text \<open>
  The theorem at \<open>ex_client\<close>, which will not describe \<open>k1\<close> and will not list the tags of
  \<open>k2\<close>: without a filter both keys are returned, \<open>k1\<close> with no details and no tags, \<open>k2\<close>
  with no tags; with the filter \<open>Purpose=Eth\<close> only \<open>k1\<close> is returned, with no details and
  with the tags of its answer. When the same service refuses to list the aliases, the
  call throws.
\<close>

theorem listKMSKeys_failures_witness:
  "listKMSKeys ex_client (Some True) None =
     Inr ([ex_info_k1 None, ex_info_k2], [''Warning: Could not describe key k1: AccessDenied''])
   \<and> map keyId [ex_info_k1 None, ex_info_k2] = [''k1'', ''k2'']
   \<and> send_DescribeKey ex_client ''k1'' = Inl (Error ''AccessDenied'')
   \<and> no_details (ex_info_k1 None) \<and> tags (ex_info_k1 None) = None
   \<and> send_ListResourceTags ex_client ''k2'' = Inl (Error ''AccessDenied'')
   \<and> tags ex_info_k2 = None
   \<and> listKMSKeys ex_client (Some True) (Some ex_tag_filter) =
       Inr ([ex_info_k1 (Some [(''Purpose'', ''Eth'')])],
            [''Warning: Could not describe key k1: AccessDenied''])
   \<and> ''k2'' \<notin> keyId ` set [ex_info_k1 (Some [(''Purpose'', ''Eth'')])]
   \<and> no_details (ex_info_k1 (Some [(''Purpose'', ''Eth'')]))
   \<and> (\<exists>ts t. send_ListResourceTags ex_client ''k1'' = Inr (Some ts) \<and>
          fetchTags ex_client ''k1'' = Some t \<and>
          tags (ex_info_k1 (Some [(''Purpose'', ''Eth'')])) = Some t \<and>
          (\<forall>k. map_of t k = answered_value ts k))
   \<and> tags (ex_info_k1 (Some [(''Purpose'', ''Eth'')])) = Some [(''Purpose'', ''Eth'')]
   \<and> map keyId [ex_info_k1 (Some [(''Purpose'', ''Eth'')])] = [''k1'']
   \<and> listKMSKeys (ex_client\<lparr> send_ListAliases := Inl (Error ''Throttled'') \<rparr>) (Some True) None =
       Inl (Error ''Failed to list KMS keys: Throttled'')"
proof -
  have thrown: "listKMSKeys (ex_client\<lparr> send_ListAliases := Inl (Error ''Throttled'') \<rparr>) (Some True) None =
       Inl (Error ''Failed to list KMS keys: Throttled'')"
  proof (rule listKMSKeys_failures [THEN conjunct1, THEN iffD2])
    show "\<exists>e. Error ''Failed to list KMS keys: Throttled'' =
              Error (''Failed to list KMS keys: '' @ message e) \<and>
            (send_ListKeys (ex_client\<lparr> send_ListAliases := Inl (Error ''Throttled'') \<rparr>) = Inl e \<or>
             (\<exists>ks. send_ListKeys (ex_client\<lparr> send_ListAliases := Inl (Error ''Throttled'') \<rparr>) =
                     Inr (Some ks) \<and> ks \<noteq> [] \<and>
                   send_ListAliases (ex_client\<lparr> send_ListAliases := Inl (Error ''Throttled'') \<rparr>) = Inl e))"
      by (rule exI [of _ "Error ''Throttled''"]) (simp add: ex_client_def)
  qed
  have run: "listKMSKeys ex_client (Some True) None =
     Inr ([ex_info_k1 None, ex_info_k2], [''Warning: Could not describe key k1: AccessDenied''])"
    by (simp add: listKMSKeys_def ex_client_def ex_info_k1_def ex_info_k2_def ex_metadata_def
      keysToProcess_def tag_results_def build_tagsCache_def cache_set_def build_aliasMap_def
      set_alias_def truthy_def or_empty_def fetchTags_def collect_tag_def prop_assign_def
      process_key_def init_keyInfo_def Let_def set_metadata_def describe_warning_def)
  note runf = ex_run_filtered_details
  have calls: "send_DescribeKey ex_client ''k1'' = Inl (Error ''AccessDenied'')"
    "send_ListResourceTags ex_client ''k2'' = Inl (Error ''AccessDenied'')"
    "send_ListKeys ex_client =
       Inr (Some [\<lparr> KeyId = Some ''k1'', KeyArn = Some ''arn:k1'' \<rparr>,
                  \<lparr> KeyId = Some ''k2'', KeyArn = None \<rparr>])"
    by (simp_all add: ex_client_def)
  have ids: "keyId (ex_info_k1 t) = ''k1''" "keyId ex_info_k2 = ''k2''" for t
    by (simp_all add: ex_info_k1_def ex_info_k2_def)
  have l: "listed_ids [\<lparr> KeyId = Some ''k1'', KeyArn = Some ''arn:k1'' \<rparr>,
                  \<lparr> KeyId = Some ''k2'', KeyArn = None \<rparr>] = [''k1'', ''k2'']"
    by (simp add: listed_ids_def truthy_def or_empty_def)
  note inst = listKMSKeys_failures [of ex_client "Some True" None "Error []"]
  note unfiltered = inst [THEN conjunct2, THEN conjunct1, rule_format, OF run]
  note filtered = inst [THEN conjunct2, THEN conjunct2, rule_format, OF runf]
  have m1: "ex_info_k1 None \<in> set [ex_info_k1 None, ex_info_k2]"
    and m2: "ex_info_k2 \<in> set [ex_info_k1 None, ex_info_k2]"
    and m3: "ex_info_k1 (Some [(''Purpose'', ''Eth'')]) \<in> set [ex_info_k1 (Some [(''Purpose'', ''Eth'')])]"
    by simp_all
  have d1: "Some True \<noteq> Some False \<and> (\<exists>e. send_DescribeKey ex_client (keyId (ex_info_k1 t)) = Inl e)" for t
    using calls ids by simp
  have t2: "\<exists>e. send_ListResourceTags ex_client (keyId ex_info_k2) = Inl e"
    and t2': "\<exists>e. send_ListResourceTags ex_client ''k2'' = Inl e"
    using calls ids by simp_all
  have a: "map keyId [ex_info_k1 None, ex_info_k2] = [''k1'', ''k2'']"
    using unfiltered [THEN conjunct1, rule_format, OF calls(3)] l by simp
  have a': "no_details (ex_info_k1 None) \<and> tags (ex_info_k1 None) = None"
    by (rule unfiltered [THEN conjunct2, rule_format, OF m1, THEN conjunct2, rule_format, OF d1])
  have a'': "tags ex_info_k2 = None"
    by (rule unfiltered [THEN conjunct2, rule_format, OF m2, THEN conjunct1, rule_format, OF t2])
  have b: "''k2'' \<notin> keyId ` set [ex_info_k1 (Some [(''Purpose'', ''Eth'')])]"
    by (rule filtered [THEN conjunct2, THEN conjunct1, rule_format, OF t2'])
  note described = filtered [THEN conjunct2, THEN conjunct2, rule_format, OF m3 d1, unfolded ids]
  have b': "no_details (ex_info_k1 (Some [(''Purpose'', ''Eth'')]))"
    by (rule described [THEN conjunct1])
  have tg: "tags (ex_info_k1 (Some [(''Purpose'', ''Eth'')])) = Some [(''Purpose'', ''Eth'')]"
    by (simp add: ex_info_k1_def)
  have "filter (\<lambda>kid. \<exists>ts. send_ListResourceTags ex_client kid = Inr (Some ts) \<and>
            answered_value ts (filter_key ex_tag_filter) = Some (filter_value ex_tag_filter))
          [''k1'', ''k2''] = [''k1'']"
    by (simp add: ex_tags_k1 ex_answered ex_tag_filter_def calls(2))
  with filtered [THEN conjunct1, rule_format, OF calls(3)] l
  have c: "map keyId [ex_info_k1 (Some [(''Purpose'', ''Eth'')])] = [''k1'']"
    by simp
  from run a calls(1) a' calls(2) a'' runf b b' described [THEN conjunct2] tg c thrown
  show ?thesis
    by (intro conjI) simp_all
qed

section \<open>Properties of the import command\<close>

text \<open>
  C8. The call on \<open>importKMSKey\<close> has a place for an optional expiration date, between
  the region and the tags, and \<open>main\<close>, the one place of these sources that calls it,
  leaves it undefined: whatever the arguments, the environment and the collaborators
  are, every call \<open>main\<close> makes passes \<open>expirationDate = None\<close>, and it makes at most one
  call.
\<close>

theorem main_passes_no_expiration:
  "(\<forall>call \<in> set (import_calls (main importKMSKey getEthereumAddress parse_array env argv)).
       expirationDate call = None)
   \<and> length (import_calls (main importKMSKey getEthereumAddress parse_array env argv)) \<le> 1"
  by (auto simp: main_def Let_def split: sum.splits)

text \<open>
  The theorem at the command line \<open>import 0x1234... my-key Project=MyProject\<close>, where the
  call is made. With \<open>KMS_TAGS=[null]\<close> the same command line ends in the TypeError of
  line 58 and no call is made.
\<close>

theorem main_passes_no_expiration_witness:
  "import_calls (main ex_importKMSKey (\<lambda>kid rgn. Inr ''0x00'') ex_parse_array ex_env ex_argv) =
       [\<lparr> privateKeyHex = ''0x1234567890abcdef1234567890abcdef1234567890abcdef1234567890abcdef'',
          aliasName = ''my-key'', region = ''us-east-1'', expirationDate = None,
          import_tags = Some [JObject [(''TagKey'', JString ''Project''),
                                       (''TagValue'', JString ''MyProject'')]] \<rparr>]
   \<and> expirationDate
         \<lparr> privateKeyHex = ''0x1234567890abcdef1234567890abcdef1234567890abcdef1234567890abcdef'',
           aliasName = ''my-key'', region = ''us-east-1'', expirationDate = None,
           import_tags = Some [JObject [(''TagKey'', JString ''Project''),
                                        (''TagValue'', JString ''MyProject'')]] \<rparr> = None
   \<and> main ex_importKMSKey (\<lambda>kid rgn. Inr ''0x00'') ex_parse_array ex_env_null ex_argv =
       \<lparr> import_calls = [], address_calls = [], exit_code = None, rejected = True \<rparr>"
proof -
  have run: "import_calls (main ex_importKMSKey (\<lambda>kid rgn. Inr ''0x00'') ex_parse_array ex_env ex_argv) =
       [\<lparr> privateKeyHex = ''0x1234567890abcdef1234567890abcdef1234567890abcdef1234567890abcdef'',
          aliasName = ''my-key'', region = ''us-east-1'', expirationDate = None,
          import_tags = Some [JObject [(''TagKey'', JString ''Project''),
                                       (''TagValue'', JString ''MyProject'')]] \<rparr>]"
    by (simp add: main_def ex_importKMSKey_def ex_env_def ex_argv_def truthy_def argv_at_def
        or_empty_def or_default_def environment_tags_def argument_tags_def match_tag_arg_def
        tag_text_throws_def own_property_def Let_def)
  have thrown: "main ex_importKMSKey (\<lambda>kid rgn. Inr ''0x00'') ex_parse_array ex_env_null ex_argv =
       \<lparr> import_calls = [], address_calls = [], exit_code = None, rejected = True \<rparr>"
    by (simp add: main_def ex_env_null_def ex_parse_array_def ex_argv_def truthy_def argv_at_def
        or_empty_def or_default_def environment_tags_def argument_tags_def match_tag_arg_def
        tag_text_throws_def own_property_def Let_def)
  from main_passes_no_expiration [of ex_importKMSKey "\<lambda>kid rgn. Inr ''0x00''" ex_parse_array ex_env ex_argv,
      THEN conjunct1, unfolded run]
  have "expirationDate
         \<lparr> privateKeyHex = ''0x1234567890abcdef1234567890abcdef1234567890abcdef1234567890abcdef'',
           aliasName = ''my-key'', region = ''us-east-1'', expirationDate = None,
           import_tags = Some [JObject [(''TagKey'', JString ''Project''),
                                        (''TagValue'', JString ''MyProject'')]] \<rparr> = None"
    by simp
  with run thrown show ?thesis by (intro conjI)
qed

section \<open>Properties of the signature recovery engine\<close>

subsection \<open>Big-endian numbers and DER elements\<close>

lemma be_to_nat_snoc: "be_to_nat (bs @ [b]) = be_to_nat bs * 256 + unat b"
  by (simp add: be_to_nat_def)

lemma be_to_nat_zero_Cons: "be_to_nat (0 # bs) = be_to_nat bs"
  by (simp add: be_to_nat_def)

lemma unat_byte_of_nat: "unat (of_nat (n mod 256) :: byte) = n mod 256"
  by (simp add: unat_of_nat)

lemma nat_to_be_0: "nat_to_be 0 = []"
  by (simp add: nat_to_be.simps [of 0])

lemma be_to_nat_nat_to_be: "be_to_nat (nat_to_be n) = n"
proof (induction n rule: nat_to_be.induct)
  case (1 n)
  show ?case
  proof (cases "n = 0")
    case True
    then show ?thesis by (simp add: nat_to_be_0 be_to_nat_def)
  next
    case False
    with 1 have "be_to_nat (nat_to_be (n div 256)) = n div 256" by simp
    with False show ?thesis
      by (subst nat_to_be.simps) (simp add: be_to_nat_snoc unat_byte_of_nat)
  qed
qed

lemma length_nat_to_be: "n < 256 ^ k \<Longrightarrow> length (nat_to_be n) \<le> k"
proof (induction k arbitrary: n)
  case 0
  then show ?case by (simp add: nat_to_be_0)
next
  case (Suc k)
  show ?case
  proof (cases "n = 0")
    case True
    then show ?thesis by (simp add: nat_to_be_0)
  next
    case False
    from Suc.prems have "n div 256 < 256 ^ k"
      by (simp add: less_mult_imp_div_less mult.commute)
    then have "length (nat_to_be (n div 256)) \<le> k" by (rule Suc.IH)
    with False show ?thesis by (subst nat_to_be.simps) simp
  qed
qed

lemma be_to_nat_der_encode_integer: "be_to_nat (der_encode_integer n) = n"
proof -
  have "be_to_nat (nat_to_be n) = n" by (rule be_to_nat_nat_to_be)
  then show ?thesis
    by (auto simp: der_encode_integer_def be_to_nat_zero_Cons split: list.splits)
qed

lemma length_der_encode_integer:
  assumes "n < 2 ^ 256"
  shows "length (der_encode_integer n) \<le> 33" and "der_encode_integer n \<noteq> []"
proof -
  have "(2::nat) ^ 256 = 256 ^ 32" by simp
  with assms have "length (nat_to_be n) \<le> 32" by (simp add: length_nat_to_be)
  then show "length (der_encode_integer n) \<le> 33"
    by (auto simp: der_encode_integer_def split: list.splits)
  show "der_encode_integer n \<noteq> []"
    by (auto simp: der_encode_integer_def split: list.splits)
qed

lemma der_tlv_encode_short:
  assumes "length content < 128"
  shows "der_tlv tag (der_encode_tlv tag content @ rest) = Some (content, rest)"
proof -
  from assms have u: "unat (of_nat (length content) :: byte) = length content"
    by (simp add: unat_of_nat)
  then have "(of_nat (length content) :: byte) < 0x80"
    using assms by (simp add: word_less_nat_alt)
  with u assms show ?thesis
    by (simp add: der_tlv_def der_encode_tlv_def der_encode_length_def)
qed

lemma der_decode_encode_signature:
  assumes "0 \<le> r" "r < 2 ^ 256" "0 \<le> s" "s < 2 ^ 256"
  shows "der_decode_signature (der_encode_signature (r, s)) = Some (r, s)"
proof -
  let ?R = "der_encode_integer (nat r)" and ?S = "der_encode_integer (nat s)"
  from assms have nr: "nat r < 2 ^ 256" and ns: "nat s < 2 ^ 256"
    by (simp_all add: nat_less_iff)
  then have lr: "length ?R \<le> 33" and ls: "length ?S \<le> 33"
    by (simp_all add: length_der_encode_integer)
  have len: "length (der_encode_tlv 0x02 c) = length c + 2" if "length c < 128" for c
    using that by (simp add: der_encode_tlv_def der_encode_length_def)
  let ?body = "der_encode_tlv 0x02 ?R @ der_encode_tlv 0x02 ?S"
  from lr ls have body: "length ?body < 128"
    by (simp add: len)
  have 1: "der_tlv 0x30 (der_encode_tlv 0x30 ?body) = Some (?body, [])"
    using der_tlv_encode_short [OF body, of "0x30" "[]"] by simp
  have 2: "der_tlv 0x02 ?body = Some (?R, der_encode_tlv 0x02 ?S)"
    using lr by (intro der_tlv_encode_short) simp
  have 3: "der_tlv 0x02 (der_encode_tlv 0x02 ?S) = Some (?S, [])"
    using der_tlv_encode_short [of ?S "0x02" "[]"] ls by simp
  show ?thesis
    using assms
    by (simp add: der_decode_signature_def der_encode_signature_def 1 2 3
        be_to_nat_der_encode_integer)
qed

lemma canonicalize_canonical: "s \<le> curveOrder div 2 \<Longrightarrow> canonicalize (r, s) = (r, s)"
  by (simp add: canonicalize_def)

lemma canonicalize_low: "snd (canonicalize sg) \<le> curveOrder div 2"
  by (cases sg) (simp add: canonicalize_def curveOrder_def)

lemma canonicalize_twice: "canonicalize (canonicalize sg) = canonicalize sg"
  using canonicalize_low [of sg] canonicalize_canonical [of "snd (canonicalize sg)" "fst (canonicalize sg)"]
  by simp

lemma der_decode_signature_nonneg:
  "der_decode_signature raw = Some (r, s) \<Longrightarrow> 0 \<le> r \<and> 0 \<le> s"
  by (auto simp: der_decode_signature_def split: option.splits if_splits)

lemma der_encode_signature_nat:
  "der_encode_signature (r, int (nat s)) = der_encode_signature (r, s)"
  by (simp add: der_encode_signature_def)

lemma renormalize_canonical:
  assumes "0 \<le> r" "r < 2 ^ 256" "0 \<le> s" "s \<le> curveOrder div 2"
  shows "renormalize (der_encode_signature (r, s)) = Some (der_encode_signature (r, s))"
proof -
  from assms(4) have "s < 2 ^ 256" by (simp add: curveOrder_def)
  with assms have "der_decode_signature (der_encode_signature (r, s)) = Some (r, s)"
    by (simp add: der_decode_encode_signature)
  with assms(4) show ?thesis
    by (simp add: renormalize_def canonicalize_canonical)
qed

lemma renormalize_twice:
  assumes "der_decode_signature raw = Some (r, s)" and "r < 2 ^ 256"
  shows "renormalize raw = Some (der_encode_signature (canonicalize (r, s)))"
    and "renormalize (der_encode_signature (canonicalize (r, s))) =
           Some (der_encode_signature (canonicalize (r, s)))"
proof -
  show "renormalize raw = Some (der_encode_signature (canonicalize (r, s)))"
    using assms(1) by (simp add: renormalize_def)
  define s' where "s' = snd (canonicalize (r, s))"
  have c: "canonicalize (r, s) = (r, s')"
    by (simp add: s'_def canonicalize_def)
  from assms(1) have r: "0 \<le> r"
    by (auto dest: der_decode_signature_nonneg)
  from canonicalize_low [of "(r, s)"] c have "s' \<le> curveOrder div 2" by simp
  then have "int (nat s') \<le> curveOrder div 2"
    by (simp add: curveOrder_def)
  with r assms(2)
  have "renormalize (der_encode_signature (r, int (nat s'))) =
          Some (der_encode_signature (r, int (nat s')))"
    by (intro renormalize_canonical) simp_all
  then show "renormalize (der_encode_signature (canonicalize (r, s))) =
           Some (der_encode_signature (canonicalize (r, s)))"
    unfolding c der_encode_signature_nat .
qed

lemma ex_decode: "der_decode_signature ex_raw_signature = Some (1, curveOrder - 1)"
  by (simp add: der_decode_signature_def der_tlv_def ex_raw_signature_def be_to_nat_def curveOrder_def)


lemma nat_to_be_1: "nat_to_be (Suc 0) = [1]"
  by (simp add: nat_to_be.simps [of "Suc 0"] nat_to_be_0)

lemma ex_encode_low: "der_encode_signature (1, 1) = [0x30, 0x06, 0x02, 0x01, 0x01, 0x02, 0x01, 0x01]"
  by (simp add: der_encode_signature_def der_encode_tlv_def der_encode_length_def
      der_encode_integer_def nat_to_be_1 word_le_nat_alt)

subsection \<open>Canonicalization\<close>

text \<open>
  C7. The low-s step leaves an already canonical pair (\<open>s \<le> curveOrder div 2\<close>) as it is,
  and applying it twice is applying it once. So DER-decoding and re-encoding through
  the step is a no-op on the encoding of a canonical signature, and doing it a second
  time changes nothing for any signature whose \<open>r\<close> fits 32 bytes.
\<close>

theorem canonicalize_idempotent:
  "(\<forall>r s. s \<le> curveOrder div 2 \<longrightarrow> canonicalize (r, s) = (r, s))
   \<and> (\<forall>sg. canonicalize (canonicalize sg) = canonicalize sg)
   \<and> (\<forall>r s. 0 \<le> r \<and> r < 2 ^ 256 \<and> 0 \<le> s \<and> s \<le> curveOrder div 2 \<longrightarrow>
         der_decode_signature (der_encode_signature (r, s)) = Some (r, s) \<and>
         renormalize (der_encode_signature (r, s)) = Some (der_encode_signature (r, s)))
   \<and> (\<forall>raw r s. der_decode_signature raw = Some (r, s) \<and> r < 2 ^ 256 \<longrightarrow>
         (\<exists>raw'. renormalize raw = Some raw' \<and> renormalize raw' = Some raw'))"
proof (intro conjI allI impI)
  fix r s :: int
  assume "s \<le> curveOrder div 2"
  then show "canonicalize (r, s) = (r, s)" by (rule canonicalize_canonical)
next
  fix sg
  show "canonicalize (canonicalize sg) = canonicalize sg" by (rule canonicalize_twice)
next
  fix r s :: int
  assume a: "0 \<le> r \<and> r < 2 ^ 256 \<and> 0 \<le> s \<and> s \<le> curveOrder div 2"
  then have "s < 2 ^ 256" by (simp add: curveOrder_def)
  with a show "der_decode_signature (der_encode_signature (r, s)) = Some (r, s)"
    by (simp add: der_decode_encode_signature)
  from a show "renormalize (der_encode_signature (r, s)) = Some (der_encode_signature (r, s))"
    by (simp add: renormalize_canonical)
next
  fix raw r s
  assume "der_decode_signature raw = Some (r, s) \<and> r < 2 ^ 256"
  then show "\<exists>raw'. renormalize raw = Some raw' \<and> renormalize raw' = Some raw'"
    using renormalize_twice by blast
qed

text \<open>
  The theorem at the canonical pair \<open>(1, 1)\<close> and at the high-s signature
  \<open>(1, curveOrder - 1)\<close> of \<open>ex_raw_signature\<close>, which the step turns into \<open>(1, 1)\<close>.
\<close>

theorem canonicalize_idempotent_witness:
  "(1::int) \<le> curveOrder div 2
   \<and> canonicalize (1, 1) = (1, 1)
   \<and> canonicalize (canonicalize (1, curveOrder - 1)) = canonicalize (1, curveOrder - 1)
   \<and> canonicalize (1, curveOrder - 1) = (1, 1)
   \<and> der_decode_signature (der_encode_signature (1, 1)) = Some (1, 1)
   \<and> renormalize [0x30, 0x06, 0x02, 0x01, 0x01, 0x02, 0x01, 0x01] =
        Some [0x30, 0x06, 0x02, 0x01, 0x01, 0x02, 0x01, 0x01]
   \<and> der_decode_signature ex_raw_signature = Some (1, curveOrder - 1)
   \<and> renormalize ex_raw_signature = Some [0x30, 0x06, 0x02, 0x01, 0x01, 0x02, 0x01, 0x01]
   \<and> (\<exists>raw'. renormalize ex_raw_signature = Some raw' \<and> renormalize raw' = Some raw')"
proof -
  have low: "(1::int) \<le> curveOrder div 2"
    by (simp add: curveOrder_def)
  have range: "(0::int) \<le> 1 \<and> (1::int) < 2 ^ 256 \<and> (0::int) \<le> 1 \<and> (1::int) \<le> curveOrder div 2"
    using low by simp
  have c: "canonicalize (1, curveOrder - 1) = (1, 1)"
    by (simp add: canonicalize_def curveOrder_def)
  have high: "renormalize ex_raw_signature = Some [0x30, 0x06, 0x02, 0x01, 0x01, 0x02, 0x01, 0x01]"
    by (simp add: renormalize_def ex_decode c ex_encode_low)
  note inst = canonicalize_idempotent
  from inst [THEN conjunct1, rule_format, OF low]
  have 1: "canonicalize (1, 1) = (1, 1)" .
  from inst [THEN conjunct2, THEN conjunct1, rule_format, of "(1, curveOrder - 1)"]
  have 2: "canonicalize (canonicalize (1, curveOrder - 1)) = canonicalize (1, curveOrder - 1)" .
  from inst [THEN conjunct2, THEN conjunct2, THEN conjunct1, rule_format, OF range]
  have 3: "der_decode_signature (der_encode_signature (1, 1)) = Some (1, 1)"
    and 4: "renormalize (der_encode_signature (1, 1)) = Some (der_encode_signature (1, 1))"
    by simp_all
  have decoded: "der_decode_signature ex_raw_signature = Some (1, curveOrder - 1) \<and> (1::int) < 2 ^ 256"
    by (simp add: ex_decode)
  note 5 = inst [THEN conjunct2, THEN conjunct2, THEN conjunct2, rule_format, OF decoded]
  from low 1 2 c 3 4 ex_decode high have
    "(1::int) \<le> curveOrder div 2
     \<and> canonicalize (1, 1) = (1, 1)
     \<and> canonicalize (canonicalize (1, curveOrder - 1)) = canonicalize (1, curveOrder - 1)
     \<and> canonicalize (1, curveOrder - 1) = (1, 1)
     \<and> der_decode_signature (der_encode_signature (1, 1)) = Some (1, 1)
     \<and> renormalize [0x30, 0x06, 0x02, 0x01, 0x01, 0x02, 0x01, 0x01] =
          Some [0x30, 0x06, 0x02, 0x01, 0x01, 0x02, 0x01, 0x01]
     \<and> der_decode_signature ex_raw_signature = Some (1, curveOrder - 1)
     \<and> renormalize ex_raw_signature = Some [0x30, 0x06, 0x02, 0x01, 0x01, 0x02, 0x01, 0x01]"
    by (simp add: ex_encode_low)
  with 5 show ?thesis by blast
qed

subsection \<open>The outcomes of sign\<close>




end
